theory Spec2Isabelle
  imports Main "HOL-Library.AList"
begin

section \<open>Values, errors and the remote service\<close>

text \<open>
  The gateway (\<^verbatim>\<open>app/urbanomy_api/modules/urban_api_gateway.py\<close>) handles parsed JSON.
  A JSON value is null, an integer, a string, an array or an object. Booleans and
  fractional numbers are left out: no operation of the gateway inspects one.
  A Python \<^verbatim>\<open>dict\<close> is an association list read with \<open>map_of\<close>; its keys are
  pairwise distinct, as in every dict the JSON parser builds.
\<close>

datatype json =
    JNull
  | JInt int
  | JStr string
  | JArr "json list"
  | JObj "(string \<times> json) list"

type_synonym dict = "(string \<times> json) list"

text \<open>
  The exceptions the gateway can end with. \<open>HTTPException status message input\<close> is
  what \<^verbatim>\<open>http_exception\<close> builds; the others are the Python exceptions of the same
  name; \<open>RemoteError\<close> is any other failure of the HTTP handler.
\<close>

datatype error =
    HTTPException int string json
  | KeyError string
  | ValueError
  | TypeError
  | AttributeError
  | RemoteError string

text \<open>
  Modelled from the spec: \<^verbatim>\<open>http_exception\<close> of \<^verbatim>\<open>app.dependencies\<close>, which is not part
  of the module: "a helper producing a not-found error carrying an HTTP-like status
  code, message, and offending identifier".
\<close>

definition http_exception :: "int \<Rightarrow> string \<Rightarrow> json \<Rightarrow> error" where
  "http_exception status msg input = HTTPException status msg input"

text \<open>
  \<^verbatim>\<open>urban_api_handler.get\<close> is the only effect of the module: one awaited GET per call.
  The remote service is a record with one function per endpoint the module asks for,
  applied to the values the module interpolates into the path; \<open>Inl\<close> is the exception
  the handler raised.
  \<^item> \<open>functional_zone_sources id\<close>: \<^verbatim>\<open>/api/v1/scenarios/{id}/functional_zone_sources\<close>,
    a list of dicts as \<^verbatim>\<open>_form_source_params\<close> is annotated;
  \<^item> \<open>functional_zones id year source\<close>:
    \<^verbatim>\<open>/api/v1/scenarios/{id}/functional_zones?year={year}&source={source}\<close>;
  \<^item> \<open>scenario id\<close>: \<^verbatim>\<open>/api/v1/scenarios/{id}\<close>;
  \<^item> \<open>territory project_id\<close>: \<^verbatim>\<open>/api/v1/projects/{project_id}/territory\<close>;
  \<^item> \<open>indicators_values id\<close>: \<^verbatim>\<open>/api/v1/scenarios/{id}/indicators_values\<close>.
\<close>

record remote =
  functional_zone_sources :: "int \<Rightarrow> error + dict list"
  functional_zones :: "int \<Rightarrow> json \<Rightarrow> json \<Rightarrow> error + json"
  scenario :: "int \<Rightarrow> error + json"
  territory :: "json \<Rightarrow> error + json"
  indicators_values :: "int \<Rightarrow> error + json"

subsection \<open>Python's view of a JSON value\<close>

text \<open>\<^verbatim>\<open>bool(x)\<close>: None, zero and the empty string, list and dict are false.\<close>

fun truthy :: "json \<Rightarrow> bool" where
  "truthy JNull = False"
| "truthy (JInt i) = (i \<noteq> 0)"
| "truthy (JStr s) = (s \<noteq> [])"
| "truthy (JArr xs) = (xs \<noteq> [])"
| "truthy (JObj kv) = (kv \<noteq> [])"

text \<open>\<^verbatim>\<open>x.get(k, default)\<close>: only a dict has the method.\<close>

fun py_get :: "json \<Rightarrow> string \<Rightarrow> json \<Rightarrow> error + json" where
  "py_get (JObj kv) k dflt = Inr (case map_of kv k of Some v \<Rightarrow> v | None \<Rightarrow> dflt)"
| "py_get _ k dflt = Inl AttributeError"

text \<open>
  \<^verbatim>\<open>for item in x\<close>: a list gives its items, a dict its keys, a string its characters;
  None and an integer are not iterable.
\<close>

fun py_iter :: "json \<Rightarrow> error + json list" where
  "py_iter (JArr xs) = Inr xs"
| "py_iter (JObj kv) = Inr (map (\<lambda>(k, v). JStr k) kv)"
| "py_iter (JStr s) = Inr (map (\<lambda>c. JStr [c]) s)"
| "py_iter _ = Inl TypeError"

section \<open>Indicator values and project id\<close>

text \<open>\<^verbatim>\<open>get_indicator_values\<close>: the GET is inside the \<^verbatim>\<open>try\<close>.\<close>

definition get_indicator_values :: "remote \<Rightarrow> int \<Rightarrow> error + json" where
  "get_indicator_values r scenario_id =
     (case indicators_values r scenario_id of
        Inl e \<Rightarrow> Inl (http_exception 404
                  ''No indicators values found for the given scenario ID'' (JInt scenario_id))
      | Inr response \<Rightarrow> Inr response)"

text \<open>
  \<^verbatim>\<open>get_project_id\<close>: the GET is before the \<^verbatim>\<open>try\<close>, so its exception leaves the
  function as it is; the \<^verbatim>\<open>try\<close> covers the two \<^verbatim>\<open>.get\<close> calls only.
\<close>

definition get_project_id :: "remote \<Rightarrow> int \<Rightarrow> error + json" where
  "get_project_id r scenario_id =
     (case scenario r scenario_id of
        Inl e \<Rightarrow> Inl e
      | Inr response \<Rightarrow>
          (case py_get response ''project'' (JObj []) of
             Inl e \<Rightarrow> Inl (http_exception 404
                       ''Project ID is missing in scenario data.'' (JInt scenario_id))
           | Inr project \<Rightarrow>
               (case py_get project ''project_id'' JNull of
                  Inl e \<Rightarrow> Inl (http_exception 404
                            ''Project ID is missing in scenario data.'' (JInt scenario_id))
                | Inr project_id \<Rightarrow> Inr project_id)))"

section \<open>Tables\<close>

text \<open>
  A pandas table as far as the module uses one: the column names in order and one dict
  per row holding a cell for every column. A missing cell (pandas' NaN) and None are
  both \<open>JNull\<close>: pandas treats both as null, and the module never tells them apart.
\<close>

record frame =
  columns :: "string list"
  rows :: "dict list"

definition cell :: "dict \<Rightarrow> string \<Rightarrow> json" where
  "cell d c = (case map_of d c of Some v \<Rightarrow> v | None \<Rightarrow> JNull)"

text \<open>The elements of a list in the order of their first occurrence.\<close>

definition first_seen :: "'a list \<Rightarrow> 'a list" where
  "first_seen xs = rev (remdups (rev xs))"

text \<open>A row over given columns; \<^verbatim>\<open>Series.to_dict()\<close> of a row gives the same dict back.\<close>

definition to_row :: "string list \<Rightarrow> dict \<Rightarrow> dict" where
  "to_row cols d = map (\<lambda>c. (c, cell d c)) cols"

text \<open>
  \<^verbatim>\<open>pd.DataFrame(records)\<close> for a list of dicts: the columns are the keys of all
  records, each row is filled up with nulls.
\<close>

definition DataFrame :: "dict list \<Rightarrow> frame" where
  "DataFrame records =
     (let cols = first_seen (concat (map (map fst) records))
      in \<lparr>columns = cols, rows = map (to_row cols) records\<rparr>)"

text \<open>
  \<^verbatim>\<open>idxmax\<close> on index-value pairs: the index of the first pair holding the largest
  value, nothing on an empty sequence.
\<close>

fun idxmax :: "(nat \<times> int) list \<Rightarrow> nat option" where
  "idxmax [] = None"
| "idxmax ((i, y) # ps) = (if \<forall>(j, z) \<in> set ps. z \<le> y then Some i else idxmax ps)"

fun is_year :: "json \<Rightarrow> bool" where
  "is_year (JInt y) = True"
| "is_year JNull = True"
| "is_year _ = False"

fun year_entry :: "nat \<times> dict \<Rightarrow> (nat \<times> int) list" where
  "year_entry (i, row) = (case cell row ''year'' of JInt y \<Rightarrow> [(i, y)] | _ \<Rightarrow> [])"

text \<open>
  \<^verbatim>\<open>df[df["source"] == label]["year"].idxmax()\<close>: a missing column is a KeyError; a
  \<^verbatim>\<open>year\<close> column holding anything but integers and nulls has no numeric type and
  \<^verbatim>\<open>idxmax\<close> refuses it; nulls are skipped; an empty selection is a ValueError.
\<close>

definition idxmax_year :: "frame \<Rightarrow> string \<Rightarrow> error + nat" where
  "idxmax_year df label =
     (if ''source'' \<notin> set (columns df) then Inl (KeyError ''source'')
      else if ''year'' \<notin> set (columns df) then Inl (KeyError ''year'')
      else if \<not> list_all (\<lambda>row. is_year (cell row ''year'')) (rows df) then Inl TypeError
      else (case idxmax (concat (map year_entry
                  (filter (\<lambda>(i, row). cell row ''source'' = JStr label)
                     (enumerate 0 (rows df))))) of
              None \<Rightarrow> Inl ValueError
            | Some idx \<Rightarrow> Inr idx))"

text \<open>\<^verbatim>\<open>idx = ...idxmax(); return df_sources.loc[idx].to_dict()\<close> for one label.\<close>

definition best_of :: "frame \<Rightarrow> string \<Rightarrow> error + dict" where
  "best_of df label =
     (case idxmax_year df label of
        Inl e \<Rightarrow> Inl e
      | Inr idx \<Rightarrow> Inr (to_row (columns df) (rows df ! idx)))"

section \<open>Source selection\<close>

text \<open>\<^verbatim>\<open>[item["source"] for item in sources]\<close>: the first record without the key raises.\<close>

fun source_names :: "dict list \<Rightarrow> error + json list" where
  "source_names [] = Inr []"
| "source_names (item # items) =
     (case map_of item ''source'' of
        None \<Rightarrow> Inl (KeyError ''source'')
      | Some name \<Rightarrow>
          (case source_names items of Inl e \<Rightarrow> Inl e | Inr names \<Rightarrow> Inr (name # names)))"

text \<open>\<^verbatim>\<open>_form_source_params\<close>.\<close>

definition form_source_params :: "dict list \<Rightarrow> error + dict" where
  "form_source_params sources =
     (if length sources = 1 then Inr (sources ! 0)
      else (case source_names sources of
              Inl e \<Rightarrow> Inl e
            | Inr names \<Rightarrow>
                (let df_sources = DataFrame sources
                 in if JStr ''OSM'' \<in> set names then best_of df_sources ''OSM''
                    else if JStr ''PZZ'' \<in> set names then best_of df_sources ''PZZ''
                    else best_of df_sources ''User'')))"

text \<open>
  \<^verbatim>\<open>get_functional_zone_sources\<close>. \<^verbatim>\<open>if source:\<close> is false for None and for the empty
  string. \<^verbatim>\<open>next(...)\<close> gives the first record whose \<^verbatim>\<open>source\<close> is the argument.
\<close>

definition get_functional_zone_sources :: "remote \<Rightarrow> int \<Rightarrow> string option \<Rightarrow> error + dict" where
  "get_functional_zone_sources r scenario_id source =
     (case functional_zone_sources r scenario_id of
        Inl e \<Rightarrow> Inl e
      | Inr response \<Rightarrow>
          if response = []
          then Inl (http_exception 404
                 ''No functional zone sources found for scenario_id'' (JInt scenario_id))
          else (case source of
                  None \<Rightarrow> form_source_params response
                | Some name \<Rightarrow>
                    if name = [] then form_source_params response
                    else (case find (\<lambda>s. map_of s ''source'' = Some (JStr name)) response of
                            None \<Rightarrow> Inl (http_exception 404
                                     ''No data found for the specified source'' (JStr name))
                          | Some source_data \<Rightarrow>
                              if source_data = []
                              then Inl (http_exception 404
                                     ''No data found for the specified source'' (JStr name))
                              else Inr source_data)))"

section \<open>Functional zones\<close>

subsection \<open>The table of the features\<close>

text \<open>
  \<^verbatim>\<open>GeoDataFrame.from_features\<close> is the geospatial library's. A FeatureCollection
  stands for its \<^verbatim>\<open>features\<close>; anything else is iterated as it is.
\<close>

definition features_lst :: "json \<Rightarrow> error + json list" where
  "features_lst features =
     (case features of
        JObj fs \<Rightarrow>
          if map_of fs ''type'' = Some (JStr ''FeatureCollection'')
          then (case map_of fs ''features'' of
                  None \<Rightarrow> Inl (KeyError ''features'')
                | Some l \<Rightarrow> py_iter l)
          else py_iter features
      | _ \<Rightarrow> py_iter features)"

text \<open>\<^verbatim>\<open>row.update(properties)\<close>: a key keeps its place, a new key goes to the end.\<close>

definition dict_update :: "dict \<Rightarrow> dict \<Rightarrow> dict" where
  "dict_update row properties = fold (\<lambda>(k, v). AList.update k v) properties row"

text \<open>\<^verbatim>\<open>if properties is None: properties = {}\<close>.\<close>

fun properties_dict :: "json \<Rightarrow> error + dict" where
  "properties_dict JNull = Inr []"
| "properties_dict (JObj properties) = Inr properties"
| "properties_dict _ = Inl TypeError"

text \<open>
  One feature gives one row: its geometry (None when the geometry is empty), then its
  properties. The parsed geometry is represented by the JSON it is parsed from. GeoJSON
  gives a feature an object or null as \<^verbatim>\<open>properties\<close>; any other value is reported
  as a TypeError.
\<close>

fun feature_row :: "json \<Rightarrow> error + dict" where
  "feature_row (JObj feature) =
     (case map_of feature ''geometry'' of
        None \<Rightarrow> Inl (KeyError ''geometry'')
      | Some geometry \<Rightarrow>
          (case map_of feature ''properties'' of
             None \<Rightarrow> Inl (KeyError ''properties'')
           | Some p \<Rightarrow>
               (case properties_dict p of
                  Inl e \<Rightarrow> Inl e
                | Inr properties \<Rightarrow>
                    Inr (dict_update
                           [(''geometry'', if truthy geometry then geometry else JNull)]
                           properties))))"
| "feature_row _ = Inl TypeError"

fun feature_rows :: "json list \<Rightarrow> error + dict list" where
  "feature_rows [] = Inr []"
| "feature_rows (feature # features) =
     (case feature_row feature of
        Inl e \<Rightarrow> Inl e
      | Inr row \<Rightarrow>
          (case feature_rows features of Inl e \<Rightarrow> Inl e | Inr rs \<Rightarrow> Inr (row # rs)))"

text \<open>
  \<^verbatim>\<open>from_features(features, crs=...)\<close>. Every row of a feature has a \<^verbatim>\<open>geometry\<close>
  cell, so only the table of an empty feature list has no \<^verbatim>\<open>geometry\<close> column to
  carry the coordinate reference system. Releases of the library differ there: some
  raise a ValueError (geopandas 1.0), others build the table with an empty
  \<^verbatim>\<open>geometry\<close> column (geopandas 1.2). \<open>strict_crs\<close> says which library is installed.
\<close>

definition from_features :: "bool \<Rightarrow> json \<Rightarrow> error + frame" where
  "from_features strict_crs features =
     (case features_lst features of
        Inl e \<Rightarrow> Inl e
      | Inr fs \<Rightarrow>
          (case feature_rows fs of
             Inl e \<Rightarrow> Inl e
           | Inr rs \<Rightarrow>
               (let df = DataFrame rs
                in if ''geometry'' \<in> set (columns df) then Inr df
                   else if strict_crs then Inl ValueError
                   else Inr \<lparr>columns = columns df @ [''geometry''],
                             rows = map (\<lambda>row. AList.update ''geometry'' JNull row)
                                      (rows df)\<rparr>)))"

subsection \<open>Column operations\<close>

text \<open>\<^verbatim>\<open>df[c] = df[src].apply(f)\<close>, here with \<open>f\<close> reading the row.\<close>

definition assign :: "string \<Rightarrow> (dict \<Rightarrow> json) \<Rightarrow> frame \<Rightarrow> frame" where
  "assign c f df =
     \<lparr>columns = (if c \<in> set (columns df) then columns df else columns df @ [c]),
      rows = map (\<lambda>row. AList.update c (f row) row) (rows df)\<rparr>"

text \<open>\<^verbatim>\<open>df.drop(columns=cs, inplace=True, errors='ignore')\<close>.\<close>

definition drop_columns :: "string list \<Rightarrow> frame \<Rightarrow> frame" where
  "drop_columns cs df =
     \<lparr>columns = filter (\<lambda>c. c \<notin> set cs) (columns df),
      rows = map (filter (\<lambda>(k, v). k \<notin> set cs)) (rows df)\<rparr>"

text \<open>
  \<^verbatim>\<open>df.replace({c: {old: new}}, inplace=True)\<close> for one column, as a function on the
  cell; a column the table does not have is skipped.
\<close>

definition replace_in :: "string \<Rightarrow> (json \<Rightarrow> json) \<Rightarrow> frame \<Rightarrow> frame" where
  "replace_in c f df =
     (if c \<in> set (columns df)
      then \<lparr>columns = columns df,
            rows = map (\<lambda>row. AList.update c (f (cell row c)) row) (rows df)\<rparr>
      else df)"

subsection \<open>\<^verbatim>\<open>get_functional_zones\<close>\<close>

text \<open>The three lambdas of lines 83, 87 and 89.\<close>

fun landuse_zon :: "json \<Rightarrow> json" where
  "landuse_zon (JObj x) = cell x ''landuse_zon''"
| "landuse_zon _ = JNull"

fun zone_id :: "json \<Rightarrow> json" where
  "zone_id (JObj x) = cell x ''id''"
| "zone_id _ = JNull"

fun zone_name :: "json \<Rightarrow> json" where
  "zone_name (JObj x) =
     (if cell x ''name'' \<noteq> JStr ''unknown'' then cell x ''name'' else JStr ''residential'')"
| "zone_name _ = JStr ''residential''"

text \<open>Lines 66 to 77: the source is looked up and checked, then the zones are asked for.\<close>

definition fetch_zones :: "remote \<Rightarrow> int \<Rightarrow> string option \<Rightarrow> error + json" where
  "fetch_zones r scenario_id source =
     (case get_functional_zone_sources r scenario_id source of
        Inl e \<Rightarrow> Inl e
      | Inr source_data \<Rightarrow>
          if source_data = [] \<or> map_of source_data ''source'' = None
             \<or> map_of source_data ''year'' = None
          then Inl (http_exception 404
                 ''No valid source found for the given scenario ID'' (JInt scenario_id))
          else functional_zones r scenario_id
                 (cell source_data ''year'') (cell source_data ''source''))"

text \<open>Lines 78 and 79: \<^verbatim>\<open>response.get("features", response)\<close> and the table.\<close>

definition zones_raw :: "bool \<Rightarrow> json \<Rightarrow> error + frame" where
  "zones_raw strict_crs response =
     (case py_get response ''features'' response of
        Inl e \<Rightarrow> Inl e
      | Inr features \<Rightarrow> from_features strict_crs features)"

text \<open>Lines 81 to 90: the scalar columns, each under the guard of the source.\<close>

definition add_zone_columns :: "frame \<Rightarrow> frame" where
  "add_zone_columns df =
     (let df1 = (if ''properties'' \<in> set (columns df)
                 then assign ''landuse_zone'' (\<lambda>row. landuse_zon (cell row ''properties'')) df
                 else df)
      in if ''functional_zone_type'' \<in> set (columns df1)
         then assign ''zone_type_name'' (\<lambda>row. zone_name (cell row ''functional_zone_type''))
                (assign ''zone_type_id'' (\<lambda>row. zone_id (cell row ''functional_zone_type'')) df1)
         else df1)"

text \<open>Lines 92 to 97.\<close>

definition bookkeeping :: "string list" where
  "bookkeeping = [''properties'', ''functional_zone_type'', ''territory'', ''created_at'',
     ''updated_at'', ''zone_type_name'', ''functional_zone_id'', ''year'', ''source'', ''name'']"

definition zones_extracted :: "bool \<Rightarrow> json \<Rightarrow> error + frame" where
  "zones_extracted strict_crs response =
     (case zones_raw strict_crs response of
        Inl e \<Rightarrow> Inl e
      | Inr landuse_polygons \<Rightarrow> Inr (drop_columns bookkeeping (add_zone_columns landuse_polygons)))"

text \<open>Lines 99 to 102.\<close>

definition replace_values :: "frame \<Rightarrow> frame" where
  "replace_values df =
     replace_in ''zone_type_id'' (\<lambda>v. if v = JInt 14 then JInt 1 else v)
       (replace_in ''landuse_zone'' (\<lambda>v. if v = JNull then JStr ''Residential'' else v) df)"

text \<open>
  Line 106: \<^verbatim>\<open>not response or "features" not in response or not response["features"]\<close>.
  The response is a dict there, line 78 has called its \<^verbatim>\<open>get\<close>.
\<close>

fun no_features :: "json \<Rightarrow> bool" where
  "no_features (JObj response) =
     (response = [] \<or>
      (case map_of response ''features'' of
         None \<Rightarrow> True
       | Some features \<Rightarrow> \<not> truthy features))"
| "no_features response = (\<not> truthy response)"

text \<open>
  The whole function. The check for an empty answer (line 106) comes after the table is
  built, so an error of the table construction is raised before it. \<open>is_context\<close> is
  not used by the source either.
\<close>

definition get_functional_zones ::
  "bool \<Rightarrow> remote \<Rightarrow> int \<Rightarrow> bool \<Rightarrow> string option \<Rightarrow> error + frame" where
  "get_functional_zones strict_crs r scenario_id is_context source =
     (case fetch_zones r scenario_id source of
        Inl e \<Rightarrow> Inl e
      | Inr response \<Rightarrow>
          (case zones_extracted strict_crs response of
             Inl e \<Rightarrow> Inl e
           | Inr extracted \<Rightarrow>
               (let landuse_polygons = replace_values extracted
                in if no_features response
                   then Inl (http_exception 404
                          ''No functional zones found for the given scenario ID''
                          (JInt scenario_id))
                   else Inr landuse_polygons)))"

section \<open>Territory\<close>

text \<open>
  A table with its coordinate reference system, as a GeoDataFrame carries one.
\<close>

datatype crs = EPSG nat

record geo_frame =
  crs :: crs
  table :: frame

text \<open>
  Modelled from the spec: the reprojection of the geospatial library, which is not part
  of the module: the territory is "reprojected from geographic (EPSG:4326) to a locally
  estimated UTM projection", "an automatically estimated projected CRS suited to that
  location". \<open>estimate_utm\<close> is the library's estimate for geometries given in a
  reference system, \<open>reproject\<close> its transformation of one geometry from a reference
  system to another.
\<close>

record projection =
  estimate_utm :: "crs \<Rightarrow> json list \<Rightarrow> crs"
  reproject :: "crs \<Rightarrow> crs \<Rightarrow> json \<Rightarrow> json"

text \<open>\<^verbatim>\<open>gdf.estimate_utm_crs()\<close>: the estimate for the geometry column.\<close>

definition estimate_utm_crs :: "projection \<Rightarrow> geo_frame \<Rightarrow> crs" where
  "estimate_utm_crs lib gdf =
     estimate_utm lib (crs gdf) (map (\<lambda>row. cell row ''geometry'') (rows (table gdf)))"

text \<open>
  \<^verbatim>\<open>gdf.to_crs(target)\<close>: every geometry is transformed, a missing geometry stays
  missing, the other columns are kept.
\<close>

definition to_crs :: "projection \<Rightarrow> geo_frame \<Rightarrow> crs \<Rightarrow> geo_frame" where
  "to_crs lib gdf target =
     \<lparr>crs = target,
      table = replace_in ''geometry''
                (\<lambda>g. if g = JNull then JNull else reproject lib (crs gdf) target g)
                (table gdf)\<rparr>"

text \<open>\<^verbatim>\<open>x[k]\<close> for a string key: a dict without the key raises a KeyError.\<close>

fun py_getitem :: "json \<Rightarrow> string \<Rightarrow> error + json" where
  "py_getitem (JObj kv) k = (case map_of kv k of Some v \<Rightarrow> Inr v | None \<Rightarrow> Inl (KeyError k))"
| "py_getitem _ k = Inl TypeError"

text \<open>
  \<^verbatim>\<open>get_territory\<close>. The project id is asked for first, outside any \<^verbatim>\<open>try\<close>; the
  \<^verbatim>\<open>try\<close> covers the GET of the territory only.
\<close>

definition get_territory :: "bool \<Rightarrow> projection \<Rightarrow> remote \<Rightarrow> int \<Rightarrow> error + geo_frame" where
  "get_territory strict_crs lib r scenario_id =
     (case get_project_id r scenario_id of
        Inl e \<Rightarrow> Inl e
      | Inr project_id \<Rightarrow>
          (case territory r project_id of
             Inl e \<Rightarrow> Inl (http_exception 404
                       ''No territory found for the given scenario ID'' (JInt scenario_id))
           | Inr response \<Rightarrow>
               (case py_getitem response ''geometry'' of
                  Inl e \<Rightarrow> Inl e
                | Inr territory_geometry \<Rightarrow>
                    (case from_features strict_crs
                            (JArr [JObj [(''type'', JStr ''Feature''),
                                         (''geometry'', territory_geometry),
                                         (''properties'', JObj [])]]) of
                       Inl e \<Rightarrow> Inl e
                     | Inr df \<Rightarrow>
                         (let polygon_gdf = \<lparr>crs = EPSG 4326, table = df\<rparr>
                          in Inr (to_crs lib polygon_gdf
                                    (estimate_utm_crs lib polygon_gdf)))))))"

section \<open>The selection rule in the words of the specification\<close>

text \<open>
  "Prefer any record with source OSM, else PZZ, else fall back to User": the label the
  rule settles on for a list of descriptors.
\<close>

definition highest_priority_label :: "dict list \<Rightarrow> string" where
  "highest_priority_label sources =
     (if \<exists>d\<in>set sources. cell d ''source'' = JStr ''OSM'' then ''OSM''
      else if \<exists>d\<in>set sources. cell d ''source'' = JStr ''PZZ'' then ''PZZ''
      else ''User'')"

section \<open>Example data\<close>

text \<open>A source descriptor with the two fields of the data model.\<close>

definition descriptor :: "string \<Rightarrow> int \<Rightarrow> dict" where
  "descriptor label y = [(''source'', JStr label), (''year'', JInt y)]"

text \<open>
  Two answers of the functional-zones endpoint: one with the fields the Urban API sends
  for a zone, one whose only feature has no properties.
\<close>

definition demo_zones :: json where
  "demo_zones = JObj [(''type'', JStr ''FeatureCollection''), (''features'', JArr [
     JObj [(''type'', JStr ''Feature''),
           (''geometry'', JObj [(''type'', JStr ''Point''), (''coordinates'', JArr [JInt 30, JInt 59])]),
           (''properties'', JObj [
              (''functional_zone_id'', JInt 101),
              (''functional_zone_type'', JObj [(''id'', JInt 14), (''name'', JStr ''unknown'')]),
              (''name'', JNull), (''year'', JInt 2022), (''source'', JStr ''OSM''),
              (''properties'', JObj [])])],
     JObj [(''type'', JStr ''Feature''),
           (''geometry'', JObj [(''type'', JStr ''Point''), (''coordinates'', JArr [JInt 31, JInt 60])]),
           (''properties'', JObj [
              (''functional_zone_id'', JInt 102),
              (''functional_zone_type'', JObj [(''id'', JInt 3), (''name'', JStr ''industrial'')]),
              (''name'', JStr ''Plant''), (''year'', JInt 2022), (''source'', JStr ''OSM''),
              (''properties'', JObj [(''landuse_zon'', JStr ''Industrial'')])])]])]"

definition bare_zones :: json where
  "bare_zones = JObj [(''type'', JStr ''FeatureCollection''), (''features'', JArr [
     JObj [(''type'', JStr ''Feature''),
           (''geometry'', JObj [(''type'', JStr ''Point''), (''coordinates'', JArr [JInt 30, JInt 59])]),
           (''properties'', JObj [])]])]"

text \<open>A territory, and a stand-in for the library's reprojection that tags its input.\<close>

definition demo_polygon :: json where
  "demo_polygon = JObj [(''type'', JStr ''Polygon''),
     (''coordinates'', JArr [JArr [JArr [JInt 30, JInt 59], JArr [JInt 31, JInt 59],
                                   JArr [JInt 31, JInt 60], JArr [JInt 30, JInt 59]]])]"

definition demo_projection :: projection where
  "demo_projection =
     \<lparr>estimate_utm = (\<lambda>source geometries. EPSG 32636),
      reproject = (\<lambda>source target geometry.
        (case target of EPSG code \<Rightarrow> JObj [(''epsg'', JInt (int code)), (''of'', geometry)]))\<rparr>"

definition demo_remote :: remote where
  "demo_remote =
     \<lparr>functional_zone_sources = (\<lambda>id.
        if id = 1 then Inr [descriptor ''OSM'' 2020, descriptor ''OSM'' 2022, descriptor ''User'' 2019]
        else if id = 2 then Inr []
        else if id = 3 then Inr [descriptor ''PZZ'' 2021, descriptor ''User'' 2023]
        else if id = 4 then Inr [descriptor ''OSM'' 2020]
        else Inl (RemoteError ''timeout'')),
      functional_zones = (\<lambda>id year source.
        if id = 1 then Inr demo_zones
        else if id = 3 then Inr (JObj [(''type'', JStr ''FeatureCollection''), (''features'', JArr [])])
        else if id = 4 then Inr bare_zones
        else Inl (RemoteError ''timeout'')),
      scenario = (\<lambda>id.
        if id = 1 then Inr (JObj [(''scenario_id'', JInt 1), (''project'', JObj [(''project_id'', JInt 7)])])
        else if id = 2 then Inr (JObj [(''scenario_id'', JInt 2)])
        else if id = 3 then Inr (JObj [(''scenario_id'', JInt 3), (''project'', JObj [(''name'', JStr ''P'')])])
        else Inl (RemoteError ''timeout'')),
      territory = (\<lambda>project_id.
        if project_id = JInt 7
        then Inr (JObj [(''project_id'', JInt 7), (''geometry'', demo_polygon)])
        else Inl (RemoteError ''timeout'')),
      indicators_values = (\<lambda>id.
        if id = 1 then Inr (JArr [JObj [(''indicator_id'', JInt 5), (''value'', JInt 12)]])
        else Inl (RemoteError ''timeout''))\<rparr>"

section \<open>Source selection: the automatic rule\<close>

lemma idxmax_Some:
  "idxmax ps = Some i \<Longrightarrow> \<exists>y. (i, y) \<in> set ps \<and> (\<forall>(j, z) \<in> set ps. z \<le> y)"
proof (induction ps rule: idxmax.induct)
  case 1
  then show ?case by simp
next
  case (2 i' y' ps)
  show ?case
  proof (cases "\<forall>(j, z) \<in> set ps. z \<le> y'")
    case True
    with 2 show ?thesis by auto
  next
    case False
    with 2 obtain y where y: "(i, y) \<in> set ps" "\<forall>(j, z) \<in> set ps. z \<le> y" by auto
    from False obtain j z where "(j, z) \<in> set ps" "\<not> z \<le> y'" by auto
    with y have "y' \<le> y" by fastforce
    with y show ?thesis by auto
  qed
qed

lemma idxmax_None: "idxmax ps = None \<longleftrightarrow> ps = []"
proof (induction ps rule: idxmax.induct)
  case 1
  then show ?case by simp
next
  case (2 i y ps)
  then show ?case by (cases "ps = []") auto
qed

lemma set_first_seen [simp]: "set (first_seen xs) = set xs"
  by (simp add: first_seen_def)

lemma map_of_to_row: "map_of (to_row cols d) c = (if c \<in> set cols then Some (cell d c) else None)"
  by (induction cols) (auto simp: to_row_def)

lemma cell_to_row: "cell (to_row cols d) c = (if c \<in> set cols then cell d c else JNull)"
  by (simp add: cell_def map_of_to_row)

lemma to_row_idem: "to_row cols (to_row cols d) = to_row cols d"
  by (simp add: to_row_def cell_to_row[unfolded to_row_def])

lemma columns_DataFrame: "set (columns (DataFrame ds)) = (\<Union>d\<in>set ds. fst ` set d)"
  by (auto simp: DataFrame_def Let_def)

lemma rows_DataFrame: "rows (DataFrame ds) = map (to_row (columns (DataFrame ds))) ds"
  by (simp add: DataFrame_def Let_def)

lemma key_in_columns:
  "d \<in> set ds \<Longrightarrow> map_of d k = Some v \<Longrightarrow> k \<in> set (columns (DataFrame ds))"
  by (auto simp: columns_DataFrame dest!: map_of_SomeD intro!: bexI[of _ d] image_eqI[of _ _ "(k, v)"])

lemma source_names_ok:
  "\<forall>d\<in>set ds. map_of d ''source'' \<noteq> None \<Longrightarrow>
   source_names ds = Inr (map (\<lambda>d. cell d ''source'') ds)"
  by (induction ds) (auto simp: cell_def split: option.splits)

lemma year_entries:
  "(i, y) \<in> set (concat (map year_entry (filter (\<lambda>(i, row). cell row ''source'' = JStr label)
       (enumerate 0 rs)))) \<longleftrightarrow>
   i < length rs \<and> cell (rs ! i) ''source'' = JStr label \<and> cell (rs ! i) ''year'' = JInt y"
  by (auto simp: in_set_enumerate_eq split: json.splits)

lemma best_of_selects:
  assumes wf: "\<forall>d\<in>set ds. map_of d ''source'' \<noteq> None \<and> (\<exists>y. map_of d ''year'' = Some (JInt y))"
    and present: "\<exists>d\<in>set ds. cell d ''source'' = JStr label"
  shows "\<exists>i<length ds.
           best_of (DataFrame ds) label = Inr (to_row (columns (DataFrame ds)) (ds ! i)) \<and>
           cell (ds ! i) ''source'' = JStr label \<and>
           (\<exists>y. cell (ds ! i) ''year'' = JInt y \<and>
              (\<forall>d'\<in>set ds. cell d' ''source'' = JStr label \<longrightarrow>
                 (\<forall>y'. cell d' ''year'' = JInt y' \<longrightarrow> y' \<le> y)))"
proof -
  define cols where "cols = columns (DataFrame ds)"
  define rs where "rs = rows (DataFrame ds)"
  define cands where "cands = concat (map year_entry
       (filter (\<lambda>(i, row). cell row ''source'' = JStr label) (enumerate 0 rs)))"
  have rs: "rs = map (to_row cols) ds"
    by (simp add: rs_def cols_def rows_DataFrame)
  from present obtain d0 where d0: "d0 \<in> set ds" "cell d0 ''source'' = JStr label" by blast
  from wf d0 obtain s0 y0 where k0: "map_of d0 ''source'' = Some s0" "map_of d0 ''year'' = Some (JInt y0)"
    by fastforce
  have src_col: "''source'' \<in> set cols" and year_col: "''year'' \<in> set cols"
    using key_in_columns[OF d0(1) k0(1)] key_in_columns[OF d0(1) k0(2)] by (simp_all add: cols_def)
  have cell_src: "cell (rs ! i) ''source'' = cell (ds ! i) ''source''" if "i < length ds" for i
    using that src_col by (simp add: rs cell_to_row)
  have cell_year: "cell (rs ! i) ''year'' = cell (ds ! i) ''year''" if "i < length ds" for i
    using that year_col by (simp add: rs cell_to_row)
  have len: "length rs = length ds" by (simp add: rs)
  have in_cands: "(i, y) \<in> set cands \<longleftrightarrow>
      i < length ds \<and> cell (ds ! i) ''source'' = JStr label \<and> cell (ds ! i) ''year'' = JInt y" for i y
    unfolding cands_def year_entries using cell_src cell_year len by auto
  have years: "list_all (\<lambda>row. is_year (cell row ''year'')) rs"
  proof -
    have "is_year (cell (to_row cols d) ''year'')" if "d \<in> set ds" for d
    proof -
      from wf that obtain y where "map_of d ''year'' = Some (JInt y)" by blast
      then have "cell d ''year'' = JInt y" by (simp add: cell_def)
      then show ?thesis using year_col by (simp add: cell_to_row)
    qed
    then show ?thesis by (simp add: rs list_all_iff)
  qed
  from d0 obtain i0 where i0: "i0 < length ds" "ds ! i0 = d0" by (auto simp: in_set_conv_nth)
  have "(i0, y0) \<in> set cands"
    using i0 d0 k0 by (simp add: in_cands cell_def)
  then have "cands \<noteq> []" by auto
  then obtain idx where idx: "idxmax cands = Some idx"
    using idxmax_None[of cands] by (cases "idxmax cands") auto
  from idxmax_Some[OF idx] obtain y where y: "(idx, y) \<in> set cands" "\<forall>(j, z) \<in> set cands. z \<le> y"
    by blast
  from y(1) have idx_lt: "idx < length ds" and idx_src: "cell (ds ! idx) ''source'' = JStr label"
    and idx_year: "cell (ds ! idx) ''year'' = JInt y"
    by (simp_all add: in_cands)
  have "idxmax_year (DataFrame ds) label = Inr idx"
    using src_col year_col years idx
    by (simp add: idxmax_year_def cols_def[symmetric] rs_def[symmetric] cands_def[symmetric])
  then have res: "best_of (DataFrame ds) label = Inr (to_row cols (ds ! idx))"
    using idx_lt by (simp add: best_of_def cols_def[symmetric] rs_def[symmetric] rs to_row_idem)
  have maxi: "y' \<le> y" if "d' \<in> set ds" "cell d' ''source'' = JStr label" "cell d' ''year'' = JInt y'" for d' y'
  proof -
    from that(1) obtain j where "j < length ds" "ds ! j = d'" by (auto simp: in_set_conv_nth)
    with that have "(j, y') \<in> set cands" by (simp add: in_cands)
    with y(2) show ?thesis by auto
  qed
  show ?thesis
    using idx_lt res idx_src idx_year maxi unfolding cols_def by blast
qed

lemma padded:
  assumes "d \<in> set ds"
  shows "(\<forall>k v. map_of d k = Some v \<longrightarrow> map_of (to_row (columns (DataFrame ds)) d) k = Some v) \<and>
         (\<forall>k v. map_of (to_row (columns (DataFrame ds)) d) k = Some v \<longrightarrow> map_of d k = Some v \<or> v = JNull)"
  using assms key_in_columns[OF assms]
  by (auto simp: map_of_to_row cell_def split: if_splits option.splits)

text \<open>
  Claim C1. For a non-empty list of source descriptors (each with a \<^verbatim>\<open>source\<close> and an
  integer \<^verbatim>\<open>year\<close>), \<^verbatim>\<open>_form_source_params\<close> returns the only element unchanged when
  there is exactly one. Otherwise, when one of the labels OSM, PZZ, User is present, it
  returns the record of the highest-priority label present that has the largest year:
  every field of that record is in the result with its value, and the result has
  nothing else but nulls for columns the record lacks.
\<close>

theorem form_source_params_priority:
  assumes nonempty: "sources \<noteq> []"
    and wf: "\<forall>d\<in>set sources. map_of d ''source'' \<noteq> None \<and> (\<exists>y. map_of d ''year'' = Some (JInt y))"
    and present: "length sources \<noteq> 1 \<longrightarrow>
       (\<exists>d\<in>set sources. cell d ''source'' \<in> {JStr ''OSM'', JStr ''PZZ'', JStr ''User''})"
  shows "(length sources = 1 \<longrightarrow> form_source_params sources = Inr (hd sources)) \<and>
         (length sources \<noteq> 1 \<longrightarrow>
            (\<exists>best\<in>set sources. \<exists>result y.
               form_source_params sources = Inr result \<and>
               (\<forall>k v. map_of best k = Some v \<longrightarrow> map_of result k = Some v) \<and>
               (\<forall>k v. map_of result k = Some v \<longrightarrow> map_of best k = Some v \<or> v = JNull) \<and>
               cell best ''source'' = JStr (highest_priority_label sources) \<and>
               cell best ''year'' = JInt y \<and>
               (\<forall>d\<in>set sources. cell d ''source'' = JStr (highest_priority_label sources) \<longrightarrow>
                  (\<forall>y'. cell d ''year'' = JInt y' \<longrightarrow> y' \<le> y))))"
proof (intro conjI impI)
  assume "length sources = 1"
  then show "form_source_params sources = Inr (hd sources)"
    using nonempty by (simp add: form_source_params_def hd_conv_nth)
next
  assume many: "length sources \<noteq> 1"
  define label where "label = highest_priority_label sources"
  have names: "source_names sources = Inr (map (\<lambda>d. cell d ''source'') sources)"
    using wf by (intro source_names_ok) blast
  have sel: "form_source_params sources = best_of (DataFrame sources) label"
  proof -
    have inn: "JStr l \<in> set (map (\<lambda>d. cell d ''source'') sources) \<longleftrightarrow>
        (\<exists>d\<in>set sources. cell d ''source'' = JStr l)" for l
      by (simp add: image_iff eq_commute)
    show ?thesis
      using many unfolding form_source_params_def names label_def highest_priority_label_def
      by (simp add: inn Let_def del: set_map)
  qed
  from present many have "\<exists>d\<in>set sources. cell d ''source'' = JStr label"
    by (auto simp: label_def highest_priority_label_def)
  from best_of_selects[OF wf this] obtain i y where i: "i < length sources"
    and res: "best_of (DataFrame sources) label = Inr (to_row (columns (DataFrame sources)) (sources ! i))"
    and src: "cell (sources ! i) ''source'' = JStr label"
    and yr: "cell (sources ! i) ''year'' = JInt y"
    and mx: "\<forall>d'\<in>set sources. cell d' ''source'' = JStr label \<longrightarrow> (\<forall>y'. cell d' ''year'' = JInt y' \<longrightarrow> y' \<le> y)"
    by blast
  from i have mem: "sources ! i \<in> set sources" by simp
  show "\<exists>best\<in>set sources. \<exists>result y.
               form_source_params sources = Inr result \<and>
               (\<forall>k v. map_of best k = Some v \<longrightarrow> map_of result k = Some v) \<and>
               (\<forall>k v. map_of result k = Some v \<longrightarrow> map_of best k = Some v \<or> v = JNull) \<and>
               cell best ''source'' = JStr (highest_priority_label sources) \<and>
               cell best ''year'' = JInt y \<and>
               (\<forall>d\<in>set sources. cell d ''source'' = JStr (highest_priority_label sources) \<longrightarrow>
                  (\<forall>y'. cell d ''year'' = JInt y' \<longrightarrow> y' \<le> y))"
    using mem sel res src yr mx padded[OF mem] unfolding label_def
    by (intro bexI[of _ "sources ! i"] exI[of _ "to_row (columns (DataFrame sources)) (sources ! i)"] exI[of _ y]) simp_all
qed

theorem form_source_params_priority_witness:
  "form_source_params [descriptor ''OSM'' 2020, descriptor ''OSM'' 2022, descriptor ''User'' 2019]
     = Inr (descriptor ''OSM'' 2022) \<and>
   form_source_params [descriptor ''PZZ'' 2021, descriptor ''User'' 2023] = Inr (descriptor ''PZZ'' 2021) \<and>
   form_source_params [descriptor ''Custom'' 1999] = Inr (descriptor ''Custom'' 1999)"
proof -
  let ?a = "[descriptor ''OSM'' 2020, descriptor ''OSM'' 2022, descriptor ''User'' 2019]"
  let ?c = "[descriptor ''Custom'' 1999]"
  have a1: "?a \<noteq> []" by simp
  have a2: "\<forall>d\<in>set ?a. map_of d ''source'' \<noteq> None \<and> (\<exists>y. map_of d ''year'' = Some (JInt y))"
    by (simp add: descriptor_def)
  have a3: "length ?a \<noteq> 1 \<longrightarrow>
       (\<exists>d\<in>set ?a. cell d ''source'' \<in> {JStr ''OSM'', JStr ''PZZ'', JStr ''User''})"
    by (simp add: descriptor_def cell_def)
  have c1: "?c \<noteq> []" by simp
  have c2: "\<forall>d\<in>set ?c. map_of d ''source'' \<noteq> None \<and> (\<exists>y. map_of d ''year'' = Some (JInt y))"
    by (simp add: descriptor_def)
  have c3: "length ?c \<noteq> 1 \<longrightarrow>
       (\<exists>d\<in>set ?c. cell d ''source'' \<in> {JStr ''OSM'', JStr ''PZZ'', JStr ''User''})"
    by simp
  have e1: "form_source_params ?a = Inr (descriptor ''OSM'' 2022)" by code_simp
  have e2: "form_source_params [descriptor ''PZZ'' 2021, descriptor ''User'' 2023] = Inr (descriptor ''PZZ'' 2021)"
    by code_simp
  show ?thesis
    using form_source_params_priority[OF a1 a2 a3] form_source_params_priority[OF c1 c2 c3] e1 e2
    by simp
qed

text \<open>
  Claim C2. With two or more descriptors and none of the labels OSM, PZZ and User, the
  rule should signal a not-found condition with status 404. The source falls through to
  the User branch, whose selection is empty, and \<^verbatim>\<open>idxmax\<close> raises a ValueError.
\<close>

theorem form_source_params_unknown_labels:
  "form_source_params [descriptor ''GP'' 2020, descriptor ''Custom'' 2021] = Inl ValueError"
  by code_simp

section \<open>Source selection: the explicit source\<close>

text \<open>
  Claim C5, as stated, at an empty sources list: no descriptor has the requested
  source, and the not-found condition carries the scenario id, not the source name.
\<close>

theorem explicit_source_empty_list:
  "functional_zone_sources demo_remote 2 = Inr [] \<and>
   get_functional_zone_sources demo_remote 2 (Some ''OSM'') =
     Inl (HTTPException 404 ''No functional zone sources found for scenario_id'' (JInt 2))"
  by (simp add: get_functional_zone_sources_def demo_remote_def http_exception_def)

text \<open>
  Claim C5, amended. For a non-empty sources list and a non-empty source argument, when
  no descriptor has a \<^verbatim>\<open>source\<close> field equal to the argument, the lookup fails with a
  not-found condition of status 404 that carries the requested source name.
\<close>

theorem explicit_source_absent:
  assumes "functional_zone_sources r scenario_id = Inr response"
    and "response \<noteq> []"
    and "name \<noteq> []"
    and "\<forall>s\<in>set response. map_of s ''source'' \<noteq> Some (JStr name)"
  shows "get_functional_zone_sources r scenario_id (Some name) =
           Inl (HTTPException 404 ''No data found for the specified source'' (JStr name))"
proof -
  have "find (\<lambda>s. map_of s ''source'' = Some (JStr name)) response = None"
    using assms(4) by (simp add: find_None_iff)
  then show ?thesis
    using assms(1-3) by (simp add: get_functional_zone_sources_def http_exception_def)
qed

theorem explicit_source_absent_witness:
  "get_functional_zone_sources demo_remote 3 (Some ''OSM'') =
     Inl (HTTPException 404 ''No data found for the specified source'' (JStr ''OSM''))"
proof -
  have 1: "functional_zone_sources demo_remote 3 = Inr [descriptor ''PZZ'' 2021, descriptor ''User'' 2023]"
    by (simp add: demo_remote_def)
  have 2: "[descriptor ''PZZ'' 2021, descriptor ''User'' 2023] \<noteq> []" by simp
  have 3: "''OSM'' \<noteq> []" by simp
  have 4: "\<forall>s\<in>set [descriptor ''PZZ'' 2021, descriptor ''User'' 2023]. map_of s ''source'' \<noteq> Some (JStr ''OSM'')"
    by (simp add: descriptor_def)
  show ?thesis by (rule explicit_source_absent[OF 1 2 3 4])
qed

text \<open>
  Claim C10. For a non-empty source argument that matches at least one descriptor, the
  lookup returns the first matching descriptor in the order of the remote list; the
  \<^verbatim>\<open>year\<close> field plays no part.
\<close>

theorem explicit_source_first_match:
  assumes "functional_zone_sources r scenario_id = Inr response"
    and "name \<noteq> []"
    and "\<exists>s\<in>set response. map_of s ''source'' = Some (JStr name)"
  shows "\<exists>i<length response.
           get_functional_zone_sources r scenario_id (Some name) = Inr (response ! i) \<and>
           map_of (response ! i) ''source'' = Some (JStr name) \<and>
           (\<forall>j<i. map_of (response ! j) ''source'' \<noteq> Some (JStr name))"
proof -
  let ?P = "\<lambda>s. map_of s ''source'' = Some (JStr name)"
  from assms(3) have "find ?P response \<noteq> None" by (auto simp: find_None_iff)
  then obtain d where d: "find ?P response = Some d" by blast
  then obtain i where i: "i < length response" "?P (response ! i)" "d = response ! i"
    "\<forall>j<i. \<not> ?P (response ! j)"
    by (auto simp: find_Some_iff)
  from i(2,3) have "d \<noteq> []" by auto
  moreover from assms(3) have "response \<noteq> []" by auto
  ultimately have "get_functional_zone_sources r scenario_id (Some name) = Inr d"
    using assms(1,2) d by (simp add: get_functional_zone_sources_def)
  with i show ?thesis by blast
qed

theorem explicit_source_first_match_witness:
  "get_functional_zone_sources demo_remote 1 (Some ''OSM'') = Inr (descriptor ''OSM'' 2020)"
proof -
  let ?resp = "[descriptor ''OSM'' 2020, descriptor ''OSM'' 2022, descriptor ''User'' 2019]"
  have 1: "functional_zone_sources demo_remote 1 = Inr ?resp"
    by (simp add: demo_remote_def)
  have 2: "''OSM'' \<noteq> []" by simp
  have 3: "\<exists>s\<in>set ?resp. map_of s ''source'' = Some (JStr ''OSM'')"
    by (simp add: descriptor_def)
  from explicit_source_first_match[OF 1 2 3] obtain i where
    i: "i < length ?resp" "get_functional_zone_sources demo_remote 1 (Some ''OSM'') = Inr (?resp ! i)"
       "\<forall>j<i. map_of (?resp ! j) ''source'' \<noteq> Some (JStr ''OSM'')"
    by blast
  have "i = 0"
  proof (rule ccontr)
    assume "i \<noteq> 0"
    then have "0 < i" by simp
    with i(3) have "map_of (?resp ! 0) ''source'' \<noteq> Some (JStr ''OSM'')" by blast
    then show False by (simp add: descriptor_def)
  qed
  with i(2) show ?thesis by simp
qed

section \<open>Project id and indicator values\<close>

text \<open>
  Claim C3. A scenario record without a \<^verbatim>\<open>project\<close> object, or whose project has no
  \<^verbatim>\<open>project_id\<close>, should give a not-found condition with status 404. Neither \<^verbatim>\<open>get\<close>
  raises on a missing key, so the \<^verbatim>\<open>except\<close> branch is not taken and None is returned.
\<close>

theorem get_project_id_returns_none:
  "get_project_id demo_remote 2 = Inr JNull \<and> get_project_id demo_remote 3 = Inr JNull"
  by (simp add: get_project_id_def demo_remote_def)

text \<open>
  Claim C9. \<^verbatim>\<open>get_indicator_values\<close> returns the remote response unchanged when the
  remote call succeeds, and raises a not-found condition with status 404 exactly when
  the remote call fails.
\<close>

theorem get_indicator_values_passthrough:
  "(\<forall>response. indicators_values r scenario_id = Inr response \<longrightarrow>
      get_indicator_values r scenario_id = Inr response) \<and>
   (\<forall>e. indicators_values r scenario_id = Inl e \<longrightarrow>
      get_indicator_values r scenario_id =
        Inl (HTTPException 404 ''No indicators values found for the given scenario ID''
               (JInt scenario_id))) \<and>
   ((\<exists>msg input. get_indicator_values r scenario_id = Inl (HTTPException 404 msg input)) \<longleftrightarrow>
    (\<exists>e. indicators_values r scenario_id = Inl e))"
  by (cases "indicators_values r scenario_id") (simp_all add: get_indicator_values_def http_exception_def)

theorem get_indicator_values_passthrough_witness:
  "get_indicator_values demo_remote 1 = Inr (JArr [JObj [(''indicator_id'', JInt 5), (''value'', JInt 12)]]) \<and>
   get_indicator_values demo_remote 9 =
     Inl (HTTPException 404 ''No indicators values found for the given scenario ID'' (JInt 9))"
  using get_indicator_values_passthrough[of demo_remote 1]
    get_indicator_values_passthrough[of demo_remote 9]
  by (simp add: demo_remote_def)

section \<open>Functional zones: the returned table\<close>

lemma cell_update: "cell (AList.update k v row) c = (if c = k then v else cell row c)"
  by (simp add: cell_def update_conv')

lemma columns_assign: "set (columns (assign c f df)) = insert c (set (columns df))"
  by (auto simp: assign_def)

lemma columns_drop_columns: "set (columns (drop_columns cs df)) = set (columns df) - set cs"
  by (auto simp: drop_columns_def)

lemma columns_replace_in: "columns (replace_in c f df) = columns df"
  by (simp add: replace_in_def)

lemma columns_replace_values: "columns (replace_values df) = columns df"
  by (simp add: replace_values_def columns_replace_in)

lemma length_rows_replace_in: "length (rows (replace_in c f df)) = length (rows df)"
  by (simp add: replace_in_def)

lemma length_rows_replace_values: "length (rows (replace_values df)) = length (rows df)"
  by (simp add: replace_values_def length_rows_replace_in)

lemma cell_replace_in:
  "i < length (rows df) \<Longrightarrow>
   cell (rows (replace_in c f df) ! i) c' =
     (if c' = c \<and> c \<in> set (columns df) then f (cell (rows df ! i) c) else cell (rows df ! i) c')"
  by (simp add: replace_in_def cell_update)

lemma cell_replace_values:
  assumes "i < length (rows df)"
  shows "cell (rows (replace_values df) ! i) c =
     (if c = ''landuse_zone'' \<and> c \<in> set (columns df)
      then (if cell (rows df ! i) c = JNull then JStr ''Residential'' else cell (rows df ! i) c)
      else if c = ''zone_type_id'' \<and> c \<in> set (columns df)
      then (if cell (rows df ! i) c = JInt 14 then JInt 1 else cell (rows df ! i) c)
      else cell (rows df ! i) c)"
  using assms
  by (simp add: replace_values_def cell_replace_in length_rows_replace_in columns_replace_in)

lemma columns_add_zone_columns:
  "set (columns (add_zone_columns df)) =
     set (columns df)
     \<union> (if ''properties'' \<in> set (columns df) then {''landuse_zone''} else {})
     \<union> (if ''functional_zone_type'' \<in> set (columns df)
        then {''zone_type_id'', ''zone_type_name''} else {})"
  by (auto simp: add_zone_columns_def Let_def columns_assign)

lemma get_functional_zones_Inr:
  assumes "get_functional_zones strict_crs r scenario_id is_context source = Inr t"
  shows "\<exists>response raw. fetch_zones r scenario_id source = Inr response \<and>
           zones_raw strict_crs response = Inr raw \<and> \<not> no_features response \<and>
           zones_extracted strict_crs response = Inr (drop_columns bookkeeping (add_zone_columns raw)) \<and>
           t = replace_values (drop_columns bookkeeping (add_zone_columns raw))"
proof -
  from assms obtain response where 1: "fetch_zones r scenario_id source = Inr response"
    by (cases "fetch_zones r scenario_id source") (simp_all add: get_functional_zones_def)
  from assms 1 obtain raw where 2: "zones_raw strict_crs response = Inr raw"
    by (cases "zones_raw strict_crs response")
       (simp_all add: get_functional_zones_def zones_extracted_def)
  from assms 1 2 have "\<not> no_features response"
    and "t = replace_values (drop_columns bookkeeping (add_zone_columns raw))"
    by (auto simp: get_functional_zones_def zones_extracted_def Let_def split: if_splits)
  with 1 2 show ?thesis by (simp add: zones_extracted_def)
qed

lemma from_features_geometry:
  "from_features strict_crs features = Inr raw \<Longrightarrow> ''geometry'' \<in> set (columns raw)"
  by (auto simp: from_features_def Let_def split: sum.splits if_splits)

lemma zones_raw_from_features:
  "zones_raw strict_crs response = Inr raw \<Longrightarrow> \<exists>features. from_features strict_crs features = Inr raw"
  by (auto simp: zones_raw_def split: sum.splits)

text \<open>
  Claim C6. In every table \<^verbatim>\<open>get_functional_zones\<close> returns, compared with the table as
  extracted (after line 97): a row whose \<^verbatim>\<open>landuse_zone\<close> was null carries
  "Residential", a row whose \<^verbatim>\<open>zone_type_id\<close> was 14 carries 1, and every other value
  of the two columns, and of every other column, is as extracted.
\<close>

theorem replaced_values:
  assumes "get_functional_zones strict_crs r scenario_id is_context source = Inr t"
  shows "\<exists>response extracted.
     fetch_zones r scenario_id source = Inr response \<and>
     zones_extracted strict_crs response = Inr extracted \<and>
     columns t = columns extracted \<and> length (rows t) = length (rows extracted) \<and>
     (\<forall>i<length (rows t).
        (''landuse_zone'' \<in> set (columns t) \<longrightarrow>
           cell (rows t ! i) ''landuse_zone'' =
             (if cell (rows extracted ! i) ''landuse_zone'' = JNull then JStr ''Residential''
              else cell (rows extracted ! i) ''landuse_zone'')) \<and>
        (''zone_type_id'' \<in> set (columns t) \<longrightarrow>
           cell (rows t ! i) ''zone_type_id'' =
             (if cell (rows extracted ! i) ''zone_type_id'' = JInt 14 then JInt 1
              else cell (rows extracted ! i) ''zone_type_id'')) \<and>
        (\<forall>c. c \<noteq> ''landuse_zone'' \<and> c \<noteq> ''zone_type_id'' \<longrightarrow>
           cell (rows t ! i) c = cell (rows extracted ! i) c))"
proof -
  from get_functional_zones_Inr[OF assms] obtain response raw where
    f: "fetch_zones r scenario_id source = Inr response"
    and e: "zones_extracted strict_crs response = Inr (drop_columns bookkeeping (add_zone_columns raw))"
    and t: "t = replace_values (drop_columns bookkeeping (add_zone_columns raw))"
    by blast
  define extracted where "extracted = drop_columns bookkeeping (add_zone_columns raw)"
  have t': "t = replace_values extracted" by (simp add: t extracted_def)
  have cols: "columns t = columns extracted" by (simp add: t' columns_replace_values)
  have len: "length (rows t) = length (rows extracted)" by (simp add: t' length_rows_replace_values)
  have cells: "cell (rows t ! i) c =
     (if c = ''landuse_zone'' \<and> c \<in> set (columns extracted)
      then (if cell (rows extracted ! i) c = JNull then JStr ''Residential'' else cell (rows extracted ! i) c)
      else if c = ''zone_type_id'' \<and> c \<in> set (columns extracted)
      then (if cell (rows extracted ! i) c = JInt 14 then JInt 1 else cell (rows extracted ! i) c)
      else cell (rows extracted ! i) c)" if "i < length (rows extracted)" for i c
    unfolding t' by (rule cell_replace_values[OF that])
  have "\<forall>i<length (rows t).
        (''landuse_zone'' \<in> set (columns t) \<longrightarrow>
           cell (rows t ! i) ''landuse_zone'' =
             (if cell (rows extracted ! i) ''landuse_zone'' = JNull then JStr ''Residential''
              else cell (rows extracted ! i) ''landuse_zone'')) \<and>
        (''zone_type_id'' \<in> set (columns t) \<longrightarrow>
           cell (rows t ! i) ''zone_type_id'' =
             (if cell (rows extracted ! i) ''zone_type_id'' = JInt 14 then JInt 1
              else cell (rows extracted ! i) ''zone_type_id'')) \<and>
        (\<forall>c. c \<noteq> ''landuse_zone'' \<and> c \<noteq> ''zone_type_id'' \<longrightarrow>
           cell (rows t ! i) c = cell (rows extracted ! i) c)"
    using cells by (simp add: cols len)
  with f e cols len show ?thesis unfolding extracted_def[symmetric] by blast
qed

theorem replaced_values_witness:
  "get_functional_zones False demo_remote 1 False None =
     Inr \<lparr>columns = [''geometry'', ''landuse_zone'', ''zone_type_id''],
          rows = [[(''geometry'', JObj [(''type'', JStr ''Point''),
                                        (''coordinates'', JArr [JInt 30, JInt 59])]),
                   (''landuse_zone'', JStr ''Residential''), (''zone_type_id'', JInt 1)],
                  [(''geometry'', JObj [(''type'', JStr ''Point''),
                                        (''coordinates'', JArr [JInt 31, JInt 60])]),
                   (''landuse_zone'', JStr ''Industrial''), (''zone_type_id'', JInt 3)]]\<rparr> \<and>
   zones_extracted False demo_zones =
     Inr \<lparr>columns = [''geometry'', ''landuse_zone'', ''zone_type_id''],
          rows = [[(''geometry'', JObj [(''type'', JStr ''Point''),
                                        (''coordinates'', JArr [JInt 30, JInt 59])]),
                   (''landuse_zone'', JNull), (''zone_type_id'', JInt 14)],
                  [(''geometry'', JObj [(''type'', JStr ''Point''),
                                        (''coordinates'', JArr [JInt 31, JInt 60])]),
                   (''landuse_zone'', JStr ''Industrial''), (''zone_type_id'', JInt 3)]]\<rparr>"
proof -
  have h: "get_functional_zones False demo_remote 1 False None =
     Inr \<lparr>columns = [''geometry'', ''landuse_zone'', ''zone_type_id''],
          rows = [[(''geometry'', JObj [(''type'', JStr ''Point''),
                                        (''coordinates'', JArr [JInt 30, JInt 59])]),
                   (''landuse_zone'', JStr ''Residential''), (''zone_type_id'', JInt 1)],
                  [(''geometry'', JObj [(''type'', JStr ''Point''),
                                        (''coordinates'', JArr [JInt 31, JInt 60])]),
                   (''landuse_zone'', JStr ''Industrial''), (''zone_type_id'', JInt 3)]]\<rparr>"
    by code_simp
  have e: "zones_extracted False demo_zones =
     Inr \<lparr>columns = [''geometry'', ''landuse_zone'', ''zone_type_id''],
          rows = [[(''geometry'', JObj [(''type'', JStr ''Point''),
                                        (''coordinates'', JArr [JInt 30, JInt 59])]),
                   (''landuse_zone'', JNull), (''zone_type_id'', JInt 14)],
                  [(''geometry'', JObj [(''type'', JStr ''Point''),
                                        (''coordinates'', JArr [JInt 31, JInt 60])]),
                   (''landuse_zone'', JStr ''Industrial''), (''zone_type_id'', JInt 3)]]\<rparr>"
    by code_simp
  show ?thesis using replaced_values[OF h] h e by simp
qed

text \<open>
  Claim C7, as stated, at a feature without properties: the table is returned with the
  \<^verbatim>\<open>geometry\<close> column and neither \<^verbatim>\<open>landuse_zone\<close> nor \<^verbatim>\<open>zone_type_id\<close>, since
  each of the two scalar columns is added under a guard.
\<close>

theorem zone_table_without_zone_columns:
  "get_functional_zones True demo_remote 4 False None =
     Inr \<lparr>columns = [''geometry''],
          rows = [[(''geometry'', JObj [(''type'', JStr ''Point''),
                                        (''coordinates'', JArr [JInt 30, JInt 59])])]]\<rparr> \<and>
   ''landuse_zone'' \<notin> set [''geometry''] \<and> ''zone_type_id'' \<notin> set [''geometry'']"
  by code_simp

text \<open>
  Claim C7, amended. Every table \<^verbatim>\<open>get_functional_zones\<close> returns has the
  \<^verbatim>\<open>geometry\<close> column and none of the bookkeeping columns. It has
  \<^verbatim>\<open>landuse_zone\<close> exactly when the features carry a \<^verbatim>\<open>properties\<close> or a
  \<^verbatim>\<open>landuse_zone\<close> property, and \<^verbatim>\<open>zone_type_id\<close> exactly when they carry a
  \<^verbatim>\<open>functional_zone_type\<close> or a \<^verbatim>\<open>zone_type_id\<close> property.
\<close>

theorem zone_table_columns:
  assumes "get_functional_zones strict_crs r scenario_id is_context source = Inr t"
  shows "set (columns t) \<inter> {''properties'', ''functional_zone_type'', ''territory'', ''created_at'',
            ''updated_at'', ''zone_type_name'', ''functional_zone_id'', ''year'', ''source'',
            ''name''} = {} \<and>
         ''geometry'' \<in> set (columns t) \<and>
         (\<exists>response raw.
            fetch_zones r scenario_id source = Inr response \<and>
            zones_raw strict_crs response = Inr raw \<and>
            (''landuse_zone'' \<in> set (columns t) \<longleftrightarrow>
               ''properties'' \<in> set (columns raw) \<or> ''landuse_zone'' \<in> set (columns raw)) \<and>
            (''zone_type_id'' \<in> set (columns t) \<longleftrightarrow>
               ''functional_zone_type'' \<in> set (columns raw) \<or> ''zone_type_id'' \<in> set (columns raw)))"
proof -
  from get_functional_zones_Inr[OF assms] obtain response raw where
    f: "fetch_zones r scenario_id source = Inr response"
    and raw: "zones_raw strict_crs response = Inr raw"
    and t: "t = replace_values (drop_columns bookkeeping (add_zone_columns raw))"
    by blast
  have cols: "set (columns t) = set (columns (add_zone_columns raw)) - set bookkeeping"
    by (simp add: t columns_replace_values columns_drop_columns)
  have 1: "set (columns t) \<inter> {''properties'', ''functional_zone_type'', ''territory'', ''created_at'',
            ''updated_at'', ''zone_type_name'', ''functional_zone_id'', ''year'', ''source'',
            ''name''} = {}"
    unfolding cols by (auto simp: bookkeeping_def)
  have 2: "''geometry'' \<in> set (columns t)"
  proof -
    from zones_raw_from_features[OF raw] obtain features where
      "from_features strict_crs features = Inr raw" by blast
    then have "''geometry'' \<in> set (columns raw)" by (rule from_features_geometry)
    then show ?thesis
      unfolding cols columns_add_zone_columns by (simp add: bookkeeping_def)
  qed
  have 3: "''landuse_zone'' \<in> set (columns t) \<longleftrightarrow>
             ''properties'' \<in> set (columns raw) \<or> ''landuse_zone'' \<in> set (columns raw)"
    unfolding cols columns_add_zone_columns by (auto simp: bookkeeping_def)
  have 4: "''zone_type_id'' \<in> set (columns t) \<longleftrightarrow>
             ''functional_zone_type'' \<in> set (columns raw) \<or> ''zone_type_id'' \<in> set (columns raw)"
    unfolding cols columns_add_zone_columns by (auto simp: bookkeeping_def)
  from 1 2 3 4 f raw show ?thesis by blast
qed

theorem zone_table_columns_witness:
  "get_functional_zones True demo_remote 1 False None =
     Inr \<lparr>columns = [''geometry'', ''landuse_zone'', ''zone_type_id''],
          rows = [[(''geometry'', JObj [(''type'', JStr ''Point''),
                                        (''coordinates'', JArr [JInt 30, JInt 59])]),
                   (''landuse_zone'', JStr ''Residential''), (''zone_type_id'', JInt 1)],
                  [(''geometry'', JObj [(''type'', JStr ''Point''),
                                        (''coordinates'', JArr [JInt 31, JInt 60])]),
                   (''landuse_zone'', JStr ''Industrial''), (''zone_type_id'', JInt 3)]]\<rparr>"
proof -
  have h: "get_functional_zones True demo_remote 1 False None =
     Inr \<lparr>columns = [''geometry'', ''landuse_zone'', ''zone_type_id''],
          rows = [[(''geometry'', JObj [(''type'', JStr ''Point''),
                                        (''coordinates'', JArr [JInt 30, JInt 59])]),
                   (''landuse_zone'', JStr ''Residential''), (''zone_type_id'', JInt 1)],
                  [(''geometry'', JObj [(''type'', JStr ''Point''),
                                        (''coordinates'', JArr [JInt 31, JInt 60])]),
                   (''landuse_zone'', JStr ''Industrial''), (''zone_type_id'', JInt 3)]]\<rparr>"
    by code_simp
  show ?thesis using zone_table_columns[OF h] h by simp
qed

section \<open>Functional zones: an answer without features\<close>

text \<open>
  An answer with an empty \<^verbatim>\<open>features\<close> list, or an empty object: the table is asked for
  at line 79, before the check of line 106. A library that refuses the empty feature
  list ends the call there with its ValueError; with a library that builds the empty
  table, line 106 raises the not-found condition.
\<close>

lemma zero_features_raw:
  assumes "response = [] \<or> map_of response ''features'' = Some (JArr [])"
  shows "zones_raw strict_crs (JObj response) =
           (if strict_crs then Inl ValueError else Inr \<lparr>columns = [''geometry''], rows = []\<rparr>)"
  using assms
  by (auto simp: zones_raw_def from_features_def features_lst_def DataFrame_def first_seen_def)

lemma zero_features_result:
  assumes "fetch_zones r scenario_id source = Inr (JObj response)"
    and "response = [] \<or> map_of response ''features'' = Some (JArr [])"
  shows "get_functional_zones strict_crs r scenario_id is_context source =
           (if strict_crs then Inl ValueError
            else Inl (HTTPException 404 ''No functional zones found for the given scenario ID''
                        (JInt scenario_id)))"
proof (cases strict_crs)
  case True
  then show ?thesis
    using assms(1) zero_features_raw[OF assms(2), of True]
    by (simp add: get_functional_zones_def zones_extracted_def)
next
  case False
  have nf: "no_features (JObj response) = True" using assms(2) by auto
  have raw: "zones_raw False (JObj response) = Inr \<lparr>columns = [''geometry''], rows = []\<rparr>"
    using zero_features_raw[OF assms(2), of False] by simp
  show ?thesis
    unfolding get_functional_zones_def zones_extracted_def assms(1)
    using False by (simp only: raw nf sum.case Let_def if_True http_exception_def) simp
qed

text \<open>
  Claim C4. An answer with zero zone features should make \<^verbatim>\<open>get_functional_zones\<close>
  fail with the not-found condition of status 404, as line 106 and the docstring
  ("Raises: http_exception: If the response is empty") intend. With a library that
  refuses the empty feature list (geopandas 1.0) the call ends at line 79 with a
  ValueError and line 106 is not reached.
\<close>

theorem zero_features_value_error:
  "fetch_zones demo_remote 3 None =
     Inr (JObj [(''type'', JStr ''FeatureCollection''), (''features'', JArr [])]) \<and>
   get_functional_zones True demo_remote 3 False None = Inl ValueError"
  by code_simp

section \<open>Territory: the returned table\<close>

lemma single_feature:
  assumes "truthy polygon"
  shows "from_features strict_crs
           (JArr [JObj [(''type'', JStr ''Feature''), (''geometry'', polygon),
                        (''properties'', JObj [])]]) =
         Inr \<lparr>columns = [''geometry''], rows = [[(''geometry'', polygon)]]\<rparr>"
  using assms
  by (simp add: from_features_def features_lst_def dict_update_def DataFrame_def
        first_seen_def to_row_def cell_def)

text \<open>
  Claim C8. For every scenario whose territory fetch succeeds (the project id is found
  and the remote answers with a territory that has a polygon), \<^verbatim>\<open>get_territory\<close>
  returns a table with exactly one row and the \<^verbatim>\<open>geometry\<close> column alone; its geometry
  is the remote polygon reprojected from EPSG:4326 to the reference system the library
  estimates for it, and that estimate is the reference system of the table.
\<close>

theorem get_territory_single_feature:
  assumes "get_project_id r scenario_id = Inr project_id"
    and "territory r project_id = Inr (JObj response)"
    and "map_of response ''geometry'' = Some polygon"
    and "truthy polygon"
  shows "get_territory strict_crs lib r scenario_id =
           Inr \<lparr>crs = estimate_utm lib (EPSG 4326) [polygon],
                table = \<lparr>columns = [''geometry''],
                         rows = [[(''geometry'',
                                   reproject lib (EPSG 4326)
                                     (estimate_utm lib (EPSG 4326) [polygon]) polygon)]]\<rparr>\<rparr>"
proof -
  from assms(4) have nn: "polygon \<noteq> JNull" by auto
  show ?thesis
    using assms(1-3) nn
    by (simp add: get_territory_def single_feature[OF assms(4)] to_crs_def
          estimate_utm_crs_def replace_in_def cell_def)
qed

theorem get_territory_single_feature_witness:
  "get_territory True demo_projection demo_remote 1 =
     Inr \<lparr>crs = EPSG 32636,
          table = \<lparr>columns = [''geometry''],
                   rows = [[(''geometry'',
                             JObj [(''epsg'', JInt 32636), (''of'', demo_polygon)])]]\<rparr>\<rparr>"
proof -
  have 1: "get_project_id demo_remote 1 = Inr (JInt 7)"
    by (simp add: get_project_id_def demo_remote_def)
  have 2: "territory demo_remote (JInt 7) =
             Inr (JObj [(''project_id'', JInt 7), (''geometry'', demo_polygon)])"
    by (simp add: demo_remote_def)
  have 3: "map_of [(''project_id'', JInt 7), (''geometry'', demo_polygon)] ''geometry''
             = Some demo_polygon"
    by simp
  have 4: "truthy demo_polygon" by (simp add: demo_polygon_def)
  show ?thesis
    using get_territory_single_feature[OF 1 2 3 4, of True demo_projection]
    by (simp add: demo_projection_def)
qed

text \<open>
  The other outcomes of \<^verbatim>\<open>get_territory\<close>: a failed GET of the territory is the
  not-found condition, and an answer without \<^verbatim>\<open>geometry\<close> is the KeyError of line 131.
\<close>

lemma get_territory_remote_failure:
  assumes "get_project_id r scenario_id = Inr project_id"
    and "territory r project_id = Inl e"
  shows "get_territory strict_crs lib r scenario_id =
           Inl (HTTPException 404 ''No territory found for the given scenario ID''
                  (JInt scenario_id))"
  using assms by (simp add: get_territory_def http_exception_def)

lemma get_territory_no_geometry:
  assumes "get_project_id r scenario_id = Inr project_id"
    and "territory r project_id = Inr (JObj response)"
    and "map_of response ''geometry'' = None"
  shows "get_territory strict_crs lib r scenario_id = Inl (KeyError ''geometry'')"
  using assms by (simp add: get_territory_def)

end
